theory Spec2Isabelle
  imports Main "HOL-Library.Multiset"
begin

section \<open>The posts controller of routes/api/posts.js\<close>

text \<open>
  The file \<^verbatim>\<open>src/routes/api/posts.js\<close> holds eight Express handlers over a
  Mongoose collection of posts. Each handler is embedded as a function from the store (and
  the request's inputs) to the response and the store afterwards. What a handler awaits
  from the store either yields a value or throws; a throw is a value of \<open>exn\<close>, and the
  handler's \<^verbatim>\<open>catch\<close> block is the branch that maps it to a response.
\<close>

subsection \<open>Identities and documents\<close>

text \<open>
  \<^verbatim>\<open>req.user.id\<close>, \<^verbatim>\<open>req.params.id\<close> and \<^verbatim>\<open>req.params.comment_id\<close> are strings
  (here lists of bytes). A stored reference is a driver ObjectId of twelve bytes;
  \<^verbatim>\<open>toString()\<close> prints it as 24 lowercase hexadecimal digits, and the model keeps an
  ObjectId by that printed form.
\<close>

type_synonym identity = string

datatype objectid = ObjectId string

fun toString :: "objectid \<Rightarrow> string" where
  "toString (ObjectId h) = h"

text \<open>The strings that \<^verbatim>\<open>toString()\<close> prints: 24 lowercase hexadecimal digits.\<close>

definition isPrintedId :: "string \<Rightarrow> bool" where
  "isPrintedId s = (length s = 24 \<and> list_all (\<lambda>c. c \<in> set ''0123456789abcdef'') s)"

text \<open>
  The cast of a string to an ObjectId, as Mongoose does it for a query's id and for a
  reference field: a string of 24 hexadecimal digits in either case is read as the id it
  spells (which prints in lowercase), a string of 12 characters is read as the twelve bytes
  themselves, and any other string is refused.
\<close>

definition isHexDigit :: "char \<Rightarrow> bool" where
  "isHexDigit c = (c \<in> set ''0123456789abcdefABCDEF'')"

definition toLowerHex :: "char \<Rightarrow> char" where
  "toLowerHex c =
     (if c = CHR ''A'' then CHR ''a'' else if c = CHR ''B'' then CHR ''b''
      else if c = CHR ''C'' then CHR ''c'' else if c = CHR ''D'' then CHR ''d''
      else if c = CHR ''E'' then CHR ''e'' else if c = CHR ''F'' then CHR ''f''
      else c)"

definition hexOfByte :: "char \<Rightarrow> string" where
  "hexOfByte c =
     [''0123456789abcdef'' ! ((of_char c :: nat) div 16),
      ''0123456789abcdef'' ! ((of_char c :: nat) mod 16)]"

definition isValidObjectId :: "string \<Rightarrow> bool" where
  "isValidObjectId s = (length s = 12 \<or> (length s = 24 \<and> list_all isHexDigit s))"

definition castObjectId :: "string \<Rightarrow> objectid option" where
  "castObjectId s =
     (if length s = 24 \<and> list_all isHexDigit s then Some (ObjectId (map toLowerHex s))
      else if length s = 12 then Some (ObjectId (concat (map hexOfByte s)))
      else None)"

text \<open>
  Modelled from the spec: the schemas of \<^verbatim>\<open>models/Post.js\<close> and \<^verbatim>\<open>models/User.js\<close>
  are not among the sources. The fields are those of the spec's data model (section 3), which
  are also the ones the handlers read and write; a date is a millisecond timestamp.
\<close>

record like =
  like_id :: objectid
  like_user :: objectid

record comment =
  comment_id :: objectid
  comment_text :: string
  comment_name :: string
  comment_avatar :: string
  comment_user :: objectid
  comment_date :: int

record post =
  post_id :: objectid
  post_text :: string
  post_name :: string
  post_avatar :: string
  post_user :: objectid
  likes :: "like list"
  comments :: "comment list"
  post_date :: int

record user =
  user_id :: objectid
  user_name :: string
  user_avatar :: string

subsection \<open>The store\<close>

text \<open>
  The two collections in insertion order, and whether the database answers. An operation
  on a store that does not answer throws.
\<close>

record store =
  posts :: "post list"
  users :: "user list"
  connected :: bool

datatype exn = CastError | TypeError | ReferenceError | ValidationError | StoreError

text \<open>\<^verbatim>\<open>err.kind\<close>: only the cast of a malformed id carries the kind \<^verbatim>\<open>'ObjectId'\<close>.\<close>

fun kind :: "exn \<Rightarrow> string option" where
  "kind CastError = Some ''ObjectId''"
| "kind _ = None"

text \<open>
  \<^verbatim>\<open>Post.findById(id)\<close>: the id is cast before the query is sent (a string the cast
  refuses throws the cast error), the query matches the document of that id, and a query
  that matches nothing yields null.
\<close>

definition Post_findById :: "store \<Rightarrow> string \<Rightarrow> exn + post option" where
  "Post_findById s pid =
     (case castObjectId pid of
        None \<Rightarrow> Inl CastError
      | Some oid \<Rightarrow>
          if \<not> connected s then Inl StoreError
          else Inr (find (\<lambda>p. post_id p = oid) (posts s)))"

definition User_findById :: "store \<Rightarrow> string \<Rightarrow> exn + user option" where
  "User_findById s uid =
     (case castObjectId uid of
        None \<Rightarrow> Inl CastError
      | Some oid \<Rightarrow>
          if \<not> connected s then Inl StoreError
          else Inr (find (\<lambda>u. user_id u = oid) (users s)))"

text \<open>\<^verbatim>\<open>Post.find().sort({ date: -1 })\<close>: every post, the latest date first.\<close>

definition Post_find_sort :: "store \<Rightarrow> exn + post list" where
  "Post_find_sort s =
     (if \<not> connected s then Inl StoreError
      else Inr (sort_key (\<lambda>p. - post_date p) (posts s)))"

text \<open>\<^verbatim>\<open>newPost.save()\<close> inserts a new document.\<close>

definition save_new :: "store \<Rightarrow> post \<Rightarrow> exn + store" where
  "save_new s p =
     (if \<not> connected s then Inl StoreError
      else Inr (s\<lparr>posts := posts s @ [p]\<rparr>))"

text \<open>\<^verbatim>\<open>post.save()\<close> on a document that was read writes it back under its id.\<close>

definition save :: "store \<Rightarrow> post \<Rightarrow> exn + store" where
  "save s p =
     (if \<not> connected s then Inl StoreError
      else Inr (s\<lparr>posts := map (\<lambda>q. if post_id q = post_id p then p else q) (posts s)\<rparr>))"

text \<open>\<^verbatim>\<open>post.remove()\<close> deletes the document of that id.\<close>

definition remove :: "store \<Rightarrow> post \<Rightarrow> exn + store" where
  "remove s p =
     (if \<not> connected s then Inl StoreError
      else Inr (s\<lparr>posts := filter (\<lambda>q. post_id q \<noteq> post_id p) (posts s)\<rparr>))"

subsection \<open>Arrays\<close>

text \<open>
  \<^verbatim>\<open>Array.prototype.indexOf\<close> yields -1 when nothing matches;
  \<^verbatim>\<open>splice(start, deleteCount)\<close> counts a negative start from the end and clamps it.
\<close>

fun indexOf :: "'a list \<Rightarrow> 'a \<Rightarrow> int" where
  "indexOf [] x = - 1"
| "indexOf (y # ys) x =
     (if y = x then 0
      else (let i = indexOf ys x in if i < 0 then - 1 else i + 1))"

definition array_splice :: "int \<Rightarrow> nat \<Rightarrow> 'a list \<Rightarrow> 'a list" where
  "array_splice start deleteCount xs =
     (let len = int (length xs);
          actualStart = (if start < 0 then max (len + start) 0 else min start len);
          n = nat actualStart
      in take n xs @ drop (n + deleteCount) xs)"

definition unshift :: "'a \<Rightarrow> 'a list \<Rightarrow> 'a list" where
  "unshift x xs = x # xs"

subsection \<open>Responses\<close>

record verror =
  msg :: string
  param :: string

datatype body =
    BPost post
  | BPosts "post list"
  | BLikes "like list"
  | BComments "comment list"
  | BMsg string
  | BErrors "verror list"

text \<open>
  \<^verbatim>\<open>res.status(n).json(b)\<close> is \<open>Json n b\<close> (a bare \<^verbatim>\<open>res.json(b)\<close> has status 200)
  and \<^verbatim>\<open>res.status(n).send(t)\<close> is \<open>Send n t\<close>.
\<close>

datatype response = Json nat body | Send nat string

text \<open>
  \<^verbatim>\<open>check('text', 'Text is required').not().isEmpty()\<close> followed by
  \<^verbatim>\<open>validationResult(req)\<close>: the errors of the request, one when the text is empty
  (an absent field reads as the empty string).
\<close>

definition validationResult :: "string \<Rightarrow> verror list" where
  "validationResult text =
     (if text = [] then [\<lparr>msg = ''Text is required'', param = ''text''\<rparr>] else [])"

text \<open>The \<^verbatim>\<open>catch\<close> block shared by every handler but get-by-id.\<close>

definition server_error :: "store \<Rightarrow> response \<times> store" where
  "server_error s = (Send 500 ''Server error'', s)"

subsection \<open>The handlers\<close>

text \<open>
  Every handler takes the store \<open>s\<close> and the caller \<open>uid\<close> (\<^verbatim>\<open>req.user.id\<close>, set by
  the auth middleware). A handler that creates a document or a subdocument also takes the
  id \<open>fresh\<close> the driver generates for it and the time \<open>now\<close> of the date default.
\<close>

text \<open>
  \<^verbatim>\<open>router.post('/')\<close>, lines 13-43. Reading \<^verbatim>\<open>user.name\<close> of a null user
  throws a TypeError.
\<close>

definition create_post_try ::
  "store \<Rightarrow> objectid \<Rightarrow> int \<Rightarrow> identity \<Rightarrow> string \<Rightarrow> exn + response \<times> store" where
  "create_post_try s fresh now uid text =
     (case User_findById s uid of
        Inl err \<Rightarrow> Inl err
      | Inr None \<Rightarrow> Inl TypeError
      | Inr (Some usr) \<Rightarrow>
          (case castObjectId uid of
             None \<Rightarrow> Inl ValidationError
           | Some owner \<Rightarrow>
               (let newPost = \<lparr>post_id = fresh, post_text = text, post_name = user_name usr,
                               post_avatar = user_avatar usr, post_user = owner,
                               likes = [], comments = [], post_date = now\<rparr>
                in case save_new s newPost of
                     Inl err \<Rightarrow> Inl err
                   | Inr s' \<Rightarrow> Inr (Json 200 (BPost newPost), s'))))"

definition create_post :: "store \<Rightarrow> objectid \<Rightarrow> int \<Rightarrow> identity \<Rightarrow> string \<Rightarrow> response \<times> store" where
  "create_post s fresh now uid text =
     (let errors = validationResult text in
      if \<not> (errors = []) then (Json 400 (BErrors errors), s)
      else (case create_post_try s fresh now uid text of
              Inr r \<Rightarrow> r
            | Inl err \<Rightarrow> server_error s))"

text \<open>\<^verbatim>\<open>router.get('/')\<close>, lines 48-56.\<close>

definition get_posts :: "store \<Rightarrow> response \<times> store" where
  "get_posts s =
     (case Post_find_sort s of
        Inl err \<Rightarrow> server_error s
      | Inr ps \<Rightarrow> (Json 200 (BPosts ps), s))"

text \<open>
  \<^verbatim>\<open>router.get('/:id')\<close>, lines 61-79. In the branch of a null post, line 66 calls
  \<^verbatim>\<open>status(404)\<close> with no \<^verbatim>\<open>res.\<close> before it: the name is bound nowhere, so the call
  throws a ReferenceError inside the \<^verbatim>\<open>try\<close>.
\<close>

definition get_post_try :: "store \<Rightarrow> string \<Rightarrow> exn + response \<times> store" where
  "get_post_try s pid =
     (case Post_findById s pid of
        Inl err \<Rightarrow> Inl err
      | Inr None \<Rightarrow> Inl ReferenceError
      | Inr (Some p) \<Rightarrow> Inr (Json 200 (BPost p), s))"

definition get_post :: "store \<Rightarrow> string \<Rightarrow> response \<times> store" where
  "get_post s pid =
     (case get_post_try s pid of
        Inr r \<Rightarrow> r
      | Inl err \<Rightarrow>
          if kind err = Some ''ObjectId'' then (Json 404 (BMsg ''Post not found''), s)
          else server_error s)"

text \<open>
  \<^verbatim>\<open>router.delete('/:id')\<close>, lines 85-103. Reading \<^verbatim>\<open>post.user\<close> of a null post throws
  a TypeError.
\<close>

definition delete_post_try :: "store \<Rightarrow> identity \<Rightarrow> string \<Rightarrow> exn + response \<times> store" where
  "delete_post_try s uid pid =
     (case Post_findById s pid of
        Inl err \<Rightarrow> Inl err
      | Inr None \<Rightarrow> Inl TypeError
      | Inr (Some p) \<Rightarrow>
          if toString (post_user p) \<noteq> uid
          then Inr (Json 401 (BMsg ''User not authorized''), s)
          else (case remove s p of
                  Inl err \<Rightarrow> Inl err
                | Inr s' \<Rightarrow> Inr (Json 200 (BMsg ''Post removed''), s')))"

definition delete_post :: "store \<Rightarrow> identity \<Rightarrow> string \<Rightarrow> response \<times> store" where
  "delete_post s uid pid =
     (case delete_post_try s uid pid of Inr r \<Rightarrow> r | Inl err \<Rightarrow> server_error s)"

text \<open>
  \<^verbatim>\<open>router.put('/like/:id')\<close>, lines 108-128. The pushed subdocument casts
  \<^verbatim>\<open>req.user.id\<close> to a reference; a string the cast refuses fails the save's
  validation.
\<close>

definition put_like_try :: "store \<Rightarrow> objectid \<Rightarrow> identity \<Rightarrow> string \<Rightarrow> exn + response \<times> store" where
  "put_like_try s fresh uid pid =
     (case Post_findById s pid of
        Inl err \<Rightarrow> Inl err
      | Inr None \<Rightarrow> Inl TypeError
      | Inr (Some p) \<Rightarrow>
          if length (filter (\<lambda>l. toString (like_user l) = uid) (likes p)) > 0
          then Inr (Json 400 (BMsg ''Post already liked''), s)
          else (case castObjectId uid of
                  None \<Rightarrow> Inl ValidationError
                | Some u \<Rightarrow>
                    (let p' = p\<lparr>likes := unshift \<lparr>like_id = fresh, like_user = u\<rparr> (likes p)\<rparr>
                     in case save s p' of
                          Inl err \<Rightarrow> Inl err
                        | Inr s' \<Rightarrow> Inr (Json 200 (BLikes (likes p')), s'))))"

definition put_like :: "store \<Rightarrow> objectid \<Rightarrow> identity \<Rightarrow> string \<Rightarrow> response \<times> store" where
  "put_like s fresh uid pid =
     (case put_like_try s fresh uid pid of Inr r \<Rightarrow> r | Inl err \<Rightarrow> server_error s)"

text \<open>\<^verbatim>\<open>router.put('/unlike/:id')\<close>, lines 133-156.\<close>

definition put_unlike_try :: "store \<Rightarrow> identity \<Rightarrow> string \<Rightarrow> exn + response \<times> store" where
  "put_unlike_try s uid pid =
     (case Post_findById s pid of
        Inl err \<Rightarrow> Inl err
      | Inr None \<Rightarrow> Inl TypeError
      | Inr (Some p) \<Rightarrow>
          if length (filter (\<lambda>l. toString (like_user l) = uid) (likes p)) = 0
          then Inr (Json 400 (BMsg ''Post has not yet being liked''), s)
          else
            (let removeIndex = indexOf (map (\<lambda>l. toString (like_user l)) (likes p)) uid;
                 p' = p\<lparr>likes := array_splice removeIndex 1 (likes p)\<rparr>
             in case save s p' of
                  Inl err \<Rightarrow> Inl err
                | Inr s' \<Rightarrow> Inr (Json 200 (BLikes (likes p')), s')))"

definition put_unlike :: "store \<Rightarrow> identity \<Rightarrow> string \<Rightarrow> response \<times> store" where
  "put_unlike s uid pid =
     (case put_unlike_try s uid pid of Inr r \<Rightarrow> r | Inl err \<Rightarrow> server_error s)"



text \<open>
  \<^verbatim>\<open>router.delete('/comment/:id/:comment_id')\<close>, lines 202-234. The comment is looked up
  by \<^verbatim>\<open>comment.id\<close> (the printed id); the index to remove is the first position whose
  author prints as the caller.
\<close>

definition delete_comment_try :: "store \<Rightarrow> identity \<Rightarrow> string \<Rightarrow> string \<Rightarrow> exn + response \<times> store" where
  "delete_comment_try s uid pid cid =
     (case Post_findById s pid of
        Inl err \<Rightarrow> Inl err
      | Inr None \<Rightarrow> Inl TypeError
      | Inr (Some p) \<Rightarrow>
          (case find (\<lambda>c. toString (comment_id c) = cid) (comments p) of
             None \<Rightarrow> Inr (Json 404 (BMsg ''Comment does not exist''), s)
           | Some c \<Rightarrow>
               if toString (comment_user c) \<noteq> uid
               then Inr (Json 401 (BMsg ''User not authorized''), s)
               else
                 (let removeIndex =
                        indexOf (map (\<lambda>c. toString (comment_user c)) (comments p)) uid;
                      p' = p\<lparr>comments := array_splice removeIndex 1 (comments p)\<rparr>
                  in case save s p' of
                       Inl err \<Rightarrow> Inl err
                     | Inr s' \<Rightarrow> Inr (Json 200 (BComments (comments p')), s'))))"

definition delete_comment :: "store \<Rightarrow> identity \<Rightarrow> string \<Rightarrow> string \<Rightarrow> response \<times> store" where
  "delete_comment s uid pid cid =
     (case delete_comment_try s uid pid cid of Inr r \<Rightarrow> r | Inl err \<Rightarrow> server_error s)"

subsection \<open>The router\<close>






subsection \<open>A small store\<close>

text \<open>
  Two users and two posts, used to run the handlers: Alice's post carries one like (Bob's)
  and two comments, both written by Alice; Bob's post is older and was inserted first.
\<close>

definition alice :: identity where "alice = ''5f00000000000000000000a1''"

definition bob :: identity where "bob = ''5f00000000000000000000b2''"

text \<open>Bob's id spelled with capital digits: the cast reads it as Bob's id.\<close>

definition bob_capitals :: identity where "bob_capitals = ''5F00000000000000000000B2''"

definition pid_bob :: string where "pid_bob = ''5f00000000000000000000d0''"

definition pid_alice :: string where "pid_alice = ''5f00000000000000000000d1''"

definition pid_absent :: string where "pid_absent = ''5f00000000000000000000d9''"

definition cid_first :: string where "cid_first = ''5f00000000000000000000c1''"

definition cid_second :: string where "cid_second = ''5f00000000000000000000c2''"

definition fresh_id :: objectid where "fresh_id = ObjectId ''5f00000000000000000000f1''"

definition first_comment :: comment where
  "first_comment =
     \<lparr>comment_id = ObjectId cid_first, comment_text = ''first'', comment_name = ''Alice'',
      comment_avatar = ''a.png'', comment_user = ObjectId alice, comment_date = 22\<rparr>"

definition second_comment :: comment where
  "second_comment =
     \<lparr>comment_id = ObjectId cid_second, comment_text = ''second'', comment_name = ''Alice'',
      comment_avatar = ''a.png'', comment_user = ObjectId alice, comment_date = 21\<rparr>"

definition bob_like :: like where
  "bob_like = \<lparr>like_id = ObjectId ''5f00000000000000000000e1'', like_user = ObjectId bob\<rparr>"

definition alice_post :: post where
  "alice_post =
     \<lparr>post_id = ObjectId pid_alice, post_text = ''hello'', post_name = ''Alice'',
      post_avatar = ''a.png'', post_user = ObjectId alice, likes = [bob_like],
      comments = [first_comment, second_comment], post_date = 20\<rparr>"

definition bob_post :: post where
  "bob_post =
     \<lparr>post_id = ObjectId pid_bob, post_text = ''older'', post_name = ''Bob'',
      post_avatar = ''b.png'', post_user = ObjectId bob, likes = [],
      comments = [], post_date = 10\<rparr>"

definition demo_store :: store where
  "demo_store =
     \<lparr>posts = [bob_post, alice_post],
      users = [\<lparr>user_id = ObjectId alice, user_name = ''Alice'', user_avatar = ''a.png''\<rparr>,
               \<lparr>user_id = ObjectId bob, user_name = ''Bob'', user_avatar = ''b.png''\<rparr>],
      connected = True\<rparr>"

section \<open>Properties of the handlers\<close>

lemmas demo_defs =
  alice_def bob_def pid_bob_def pid_alice_def pid_absent_def cid_first_def cid_second_def
  fresh_id_def first_comment_def second_comment_def bob_like_def alice_post_def bob_post_def
  demo_store_def bob_capitals_def

subsection \<open>What the store returns\<close>

lemma lower_hex_digit:
  "c \<in> set ''0123456789abcdef'' \<Longrightarrow> isHexDigit c \<and> toLowerHex c = c"
  by (auto simp add: isHexDigit_def toLowerHex_def)

text \<open>A printed id is cast to the id that prints so.\<close>

lemma cast_printed:
  assumes "isPrintedId uid"
  shows "castObjectId uid = Some (ObjectId uid)"
proof -
  from assms have l: "length uid = 24"
    and d: "\<forall>c \<in> set uid. c \<in> set ''0123456789abcdef''"
    by (simp_all add: isPrintedId_def list_all_iff)
  have h: "list_all isHexDigit uid"
    unfolding list_all_iff
  proof
    fix c assume "c \<in> set uid"
    with d have "c \<in> set ''0123456789abcdef''" by blast
    then show "isHexDigit c" by (rule lower_hex_digit [THEN conjunct1])
  qed
  have "map toLowerHex uid = uid"
  proof (rule map_idI)
    fix c assume "c \<in> set uid"
    with d have "c \<in> set ''0123456789abcdef''" by blast
    then show "toLowerHex c = c" by (rule lower_hex_digit [THEN conjunct2])
  qed
  with l h show ?thesis by (simp add: castObjectId_def)
qed

lemma cast_refuses: "(castObjectId s = None) = (\<not> isValidObjectId s)"
  by (auto simp add: castObjectId_def isValidObjectId_def)



lemma find_replaced:
  "find (\<lambda>q. post_id q = oid) xs = Some p \<Longrightarrow> post_id p' = post_id p \<Longrightarrow>
   find (\<lambda>q. post_id q = oid)
     (map (\<lambda>q. if post_id q = post_id p' then p' else q) xs) = Some p'"
proof (induction xs)
  case Nil
  then show ?case by simp
next
  case (Cons x xs)
  show ?case
  proof (cases "post_id x = oid")
    case True
    with Cons.prems have "x = p" by simp
    with True Cons.prems show ?thesis by simp
  next
    case False
    with Cons.prems have f: "find (\<lambda>q. post_id q = oid) xs = Some p" by simp
    then have "post_id p = oid" by (auto simp add: find_Some_iff)
    with False Cons.prems have "post_id x \<noteq> post_id p'" by auto
    with False Cons.IH [OF f Cons.prems(2)] show ?thesis by simp
  qed
qed

text \<open>A post that was read and is written back under its id is the one read next.\<close>

lemma findById_save:
  assumes "Post_findById s pid = Inr (Some p)" and "post_id p' = post_id p"
  shows "\<exists>s'. save s p' = Inr s' \<and> Post_findById s' pid = Inr (Some p')"
proof -
  from assms(1) obtain oid where k: "castObjectId pid = Some oid" and c: "connected s"
    and f: "find (\<lambda>q. post_id q = oid) (posts s) = Some p"
    by (auto simp add: Post_findById_def split: if_splits option.splits)
  show ?thesis using c k find_replaced [OF f assms(2)]
    by (simp add: save_def Post_findById_def)
qed

text \<open>A printed id that no stored post prints is the id of no stored post.\<close>

lemma findById_absent:
  assumes "isPrintedId pid" and "pid \<notin> set (map (\<lambda>p. toString (post_id p)) (posts s))"
    and "connected s"
  shows "Post_findById s pid = Inr None"
proof -
  have "post_id x \<noteq> ObjectId pid" if "x \<in> set (posts s)" for x
  proof
    assume "post_id x = ObjectId pid"
    then have "toString (post_id x) = pid" by simp
    with that assms(2) show False by auto
  qed
  then have "find (\<lambda>p. post_id p = ObjectId pid) (posts s) = None"
    by (simp add: find_None_iff)
  with assms(3) show ?thesis by (simp add: Post_findById_def cast_printed [OF assms(1)])
qed

lemma findById_disconnected:
  "isPrintedId pid \<Longrightarrow> \<not> connected s \<Longrightarrow> Post_findById s pid = Inl StoreError"
  by (simp add: Post_findById_def cast_printed)

lemma demo_printed: "isPrintedId alice" "isPrintedId bob" "isPrintedId pid_alice"
  "isPrintedId pid_absent"
  by (simp_all add: isPrintedId_def demo_defs)


lemma demo_find_alice_post: "Post_findById demo_store pid_alice = Inr (Some alice_post)"
  by (simp add: Post_findById_def cast_printed [OF demo_printed(3)])
    (simp add: demo_defs)

text \<open>
  Ids in other spellings: Alice's post is found under its id in capital digits, and a
  string of twelve characters is an id that no post of the small store has.
\<close>

lemma demo_find_capitals:
  "Post_findById demo_store ''5F00000000000000000000D1'' = Inr (Some alice_post)"
  by (simp add: Post_findById_def castObjectId_def isHexDigit_def toLowerHex_def demo_defs)

lemma demo_find_twelve: "Post_findById demo_store ''abcdefghijkl'' = Inr None"
  by (simp add: Post_findById_def castObjectId_def hexOfByte_def demo_defs)

lemma demo_connected: "connected demo_store"
  by (simp add: demo_store_def)

lemma demo_absent:
  "pid_absent \<notin> set (map (\<lambda>p. toString (post_id p)) (posts demo_store))"
  by (simp add: demo_defs)

subsection \<open>Deleting a comment\<close>

text \<open>
  Claim C1 (deleting a comment by its author removes exactly the comment of the given
  comment id, and leaves the author's other comments). The handler finds the comment by its
  id but removes the first position whose author is the caller. On Alice's post, whose two
  comments are both hers, Alice's request to delete the second comment answers 200 with the
  second comment as the only one left: the first comment is the one removed, and the store
  holds the post with that comment list.
\<close>

theorem delete_comment_removes_first_of_author:
  "delete_comment demo_store alice pid_alice cid_second =
     (Json 200 (BComments [second_comment]),
      demo_store\<lparr>posts := [bob_post, alice_post\<lparr>comments := [second_comment]\<rparr>]\<rparr>)"
  by (simp add: delete_comment_def delete_comment_try_def demo_find_alice_post)
    (simp add: save_def array_splice_def demo_defs)

subsection \<open>Reading a post\<close>

text \<open>
  Claim C2 (a well-formed post id that matches no stored post is answered 404 with the
  message 'Post not found'). The branch of the null post calls the unbound name
  \<^verbatim>\<open>status\<close>; the ReferenceError has no \<^verbatim>\<open>kind\<close>, so the \<^verbatim>\<open>catch\<close> block
  answers 500. On the small store, the well-formed id that no post carries is answered
  500 'Server error'.
\<close>

theorem get_post_absent_is_server_error:
  "get_post demo_store pid_absent = (Send 500 ''Server error'', demo_store)"
  by (simp add: get_post_def get_post_try_def server_error_def
      findById_absent [OF demo_printed(4) demo_absent demo_connected])

text \<open>The same on every store and every id, as it is printed, that no stored post prints.\<close>

lemma get_post_absent:
  assumes "isPrintedId pid" and "pid \<notin> set (map (\<lambda>p. toString (post_id p)) (posts s))"
  shows "get_post s pid = (Send 500 ''Server error'', s)"
proof (cases "connected s")
  case True
  from findById_absent [OF assms True] show ?thesis
    by (simp add: get_post_def get_post_try_def server_error_def)
next
  case False
  from findById_disconnected [OF assms(1) False] show ?thesis
    by (simp add: get_post_def get_post_try_def server_error_def)
qed

subsection \<open>Likes\<close>

text \<open>
  Claim C3: when the post exists and the caller is already among the users of its likes,
  the like request is answered 400 'Post already liked' and the store is the one before:
  nothing is saved, and the post read afterwards is the same post, likes included.
\<close>

theorem put_like_twice_rejected:
  assumes "Post_findById s pid = Inr (Some p)"
    and "uid \<in> set (map (\<lambda>l. toString (like_user l)) (likes p))"
  shows "put_like s fresh uid pid = (Json 400 (BMsg ''Post already liked''), s)
       \<and> Post_findById (snd (put_like s fresh uid pid)) pid = Inr (Some p)"
  using assms by (auto simp add: put_like_def put_like_try_def filter_empty_conv)

theorem put_like_twice_rejected_witness:
  "Post_findById demo_store pid_alice = Inr (Some alice_post)
   \<and> bob \<in> set (map (\<lambda>l. toString (like_user l)) (likes alice_post))
   \<and> put_like demo_store fresh_id bob pid_alice = (Json 400 (BMsg ''Post already liked''), demo_store)
   \<and> Post_findById (snd (put_like demo_store fresh_id bob pid_alice)) pid_alice =
       Inr (Some alice_post)"
proof -
  have m: "bob \<in> set (map (\<lambda>l. toString (like_user l)) (likes alice_post))"
    by (simp add: alice_post_def bob_like_def)
  from put_like_twice_rejected [OF demo_find_alice_post m, of fresh_id] demo_find_alice_post m
  show ?thesis by simp
qed

text \<open>
  Claim C4: when the post exists and the caller is not among the users of its likes, the
  unlike request is answered 400 'Post has not yet being liked' and the store is the one
  before: nothing is saved, and the post read afterwards is the same post, likes included.
\<close>

theorem put_unlike_not_liked_rejected:
  assumes "Post_findById s pid = Inr (Some p)"
    and "uid \<notin> set (map (\<lambda>l. toString (like_user l)) (likes p))"
  shows "put_unlike s uid pid = (Json 400 (BMsg ''Post has not yet being liked''), s)
       \<and> Post_findById (snd (put_unlike s uid pid)) pid = Inr (Some p)"
  using assms by (auto simp add: put_unlike_def put_unlike_try_def filter_empty_conv)

theorem put_unlike_not_liked_rejected_witness:
  "Post_findById demo_store pid_alice = Inr (Some alice_post)
   \<and> alice \<notin> set (map (\<lambda>l. toString (like_user l)) (likes alice_post))
   \<and> put_unlike demo_store alice pid_alice =
       (Json 400 (BMsg ''Post has not yet being liked''), demo_store)
   \<and> Post_findById (snd (put_unlike demo_store alice pid_alice)) pid_alice =
       Inr (Some alice_post)"
proof -
  have m: "alice \<notin> set (map (\<lambda>l. toString (like_user l)) (likes alice_post))"
    by (simp add: alice_post_def bob_like_def alice_def bob_def)
  from put_unlike_not_liked_rejected [OF demo_find_alice_post m] demo_find_alice_post m
  show ?thesis by simp
qed

text \<open>A like by a user who is not in the likes puts that user at the head and saves the post.\<close>

lemma put_like_fresh_user:
  assumes f: "Post_findById s pid = Inr (Some p)" and v: "isPrintedId uid"
    and n: "uid \<notin> set (map (\<lambda>l. toString (like_user l)) (likes p))"
  shows "\<exists>s1. put_like s fresh uid pid =
            (Json 200 (BLikes (\<lparr>like_id = fresh, like_user = ObjectId uid\<rparr> # likes p)), s1)
          \<and> Post_findById s1 pid =
              Inr (Some (p\<lparr>likes := \<lparr>like_id = fresh, like_user = ObjectId uid\<rparr> # likes p\<rparr>))"
proof -
  let ?p' = "p\<lparr>likes := \<lparr>like_id = fresh, like_user = ObjectId uid\<rparr> # likes p\<rparr>"
  from findById_save [OF f, of ?p'] obtain s1
    where s: "save s ?p' = Inr s1" and f1: "Post_findById s1 pid = Inr (Some ?p')" by auto
  from n have e: "filter (\<lambda>l. toString (like_user l) = uid) (likes p) = []"
    by (auto simp add: filter_empty_conv)
  have "put_like s fresh uid pid = (Json 200 (BLikes (likes ?p')), s1)"
    using f e s by (simp add: put_like_def put_like_try_def cast_printed [OF v] unshift_def)
  with f1 show ?thesis by simp
qed

text \<open>An unlike by the user at the head of the likes removes that head and saves the post.\<close>

lemma put_unlike_head:
  assumes f: "Post_findById s pid = Inr (Some p)" and l: "likes p = l0 # ls"
    and u: "toString (like_user l0) = uid"
  shows "\<exists>s2. put_unlike s uid pid = (Json 200 (BLikes ls), s2)
          \<and> Post_findById s2 pid = Inr (Some (p\<lparr>likes := ls\<rparr>))"
proof -
  let ?p' = "p\<lparr>likes := ls\<rparr>"
  from findById_save [OF f, of ?p'] obtain s2
    where s: "save s ?p' = Inr s2" and f2: "Post_findById s2 pid = Inr (Some ?p')" by auto
  have "put_unlike s uid pid = (Json 200 (BLikes (likes ?p')), s2)"
    using f l u s by (simp add: put_unlike_def put_unlike_try_def array_splice_def)
  with f2 show ?thesis by simp
qed

text \<open>
  Claim C5: when the post exists and the caller (an id as it is printed) is not among the
  users of its likes, the like request answers 200 with the caller's like ahead of the former
  likes, the unlike request that follows answers 200 with exactly the former likes, and the
  post read afterwards is the post as it was before the like.
\<close>

theorem like_then_unlike_restores:
  assumes f: "Post_findById s pid = Inr (Some p)" and v: "isPrintedId uid"
    and n: "uid \<notin> set (map (\<lambda>l. toString (like_user l)) (likes p))"
  shows "\<exists>s1 s2.
           put_like s fresh uid pid =
             (Json 200 (BLikes (\<lparr>like_id = fresh, like_user = ObjectId uid\<rparr> # likes p)), s1)
         \<and> put_unlike s1 uid pid = (Json 200 (BLikes (likes p)), s2)
         \<and> Post_findById s2 pid = Inr (Some p)"
proof -
  let ?l0 = "\<lparr>like_id = fresh, like_user = ObjectId uid\<rparr>"
  from put_like_fresh_user [OF f v n] obtain s1
    where a: "put_like s fresh uid pid = (Json 200 (BLikes (?l0 # likes p)), s1)"
      and b: "Post_findById s1 pid = Inr (Some (p\<lparr>likes := ?l0 # likes p\<rparr>))" by blast
  from put_unlike_head [OF b, of ?l0 "likes p" uid] obtain s2
    where c: "put_unlike s1 uid pid = (Json 200 (BLikes (likes p)), s2)"
      and d: "Post_findById s2 pid = Inr (Some p)" by auto
  from a c d show ?thesis by blast
qed

theorem like_then_unlike_restores_witness:
  "Post_findById demo_store pid_alice = Inr (Some alice_post)
   \<and> isPrintedId alice
   \<and> alice \<notin> set (map (\<lambda>l. toString (like_user l)) (likes alice_post))
   \<and> (\<exists>s1 s2.
         put_like demo_store fresh_id alice pid_alice =
           (Json 200 (BLikes (\<lparr>like_id = fresh_id, like_user = ObjectId alice\<rparr> # likes alice_post)), s1)
       \<and> put_unlike s1 alice pid_alice = (Json 200 (BLikes (likes alice_post)), s2)
       \<and> Post_findById s2 pid_alice = Inr (Some alice_post))"
proof -
  have m: "alice \<notin> set (map (\<lambda>l. toString (like_user l)) (likes alice_post))"
    by (simp add: alice_post_def bob_like_def alice_def bob_def)
  from like_then_unlike_restores [OF demo_find_alice_post demo_printed(1) m, of fresh_id]
    demo_find_alice_post demo_printed(1) m
  show ?thesis by simp
qed



subsection \<open>Deleting a post\<close>

text \<open>
  Claim C6: when the post exists and its owner, printed as a string, differs from the caller,
  the delete request is answered 401 'User not authorized', the store is the one before, and
  reading the post by its id afterwards still yields it.
\<close>

theorem delete_post_non_owner_rejected:
  assumes "Post_findById s pid = Inr (Some p)" and "toString (post_user p) \<noteq> uid"
  shows "delete_post s uid pid = (Json 401 (BMsg ''User not authorized''), s)
       \<and> Post_findById (snd (delete_post s uid pid)) pid = Inr (Some p)"
  using assms by (simp add: delete_post_def delete_post_try_def)

theorem delete_post_non_owner_rejected_witness:
  "Post_findById demo_store pid_alice = Inr (Some alice_post)
   \<and> toString (post_user alice_post) \<noteq> bob
   \<and> delete_post demo_store bob pid_alice = (Json 401 (BMsg ''User not authorized''), demo_store)
   \<and> Post_findById (snd (delete_post demo_store bob pid_alice)) pid_alice = Inr (Some alice_post)"
proof -
  have o: "toString (post_user alice_post) \<noteq> bob"
    by (simp add: alice_post_def alice_def bob_def)
  from delete_post_non_owner_rejected [OF demo_find_alice_post o] demo_find_alice_post o
  show ?thesis by simp
qed

subsection \<open>Creating a post\<close>

text \<open>
  Claim C8: a create request whose text is empty is answered 400 with the list of field
  errors (the one error 'Text is required' of the field text), and the store is the one
  before: no post is inserted.
\<close>

theorem create_post_empty_text_rejected:
  "create_post s fresh now uid [] =
     (Json 400 (BErrors [\<lparr>msg = ''Text is required'', param = ''text''\<rparr>]), s)"
  by (simp add: create_post_def validationResult_def)

subsection \<open>Listing\<close>

text \<open>
  Claim C9: on a store that answers, the listing is answered 200 with a list that holds
  exactly the stored posts (each as often as it is stored, whatever their number) in the
  order of descending dates, and the store is unchanged.
\<close>

theorem get_posts_all_by_date_descending:
  assumes c: "connected s"
  shows "\<exists>ps. get_posts s = (Json 200 (BPosts ps), s)
            \<and> mset ps = mset (posts s)
            \<and> sorted_wrt (\<lambda>a b. post_date b \<le> post_date a) ps"
proof -
  let ?ps = "sort_key (\<lambda>p. - post_date p) (posts s)"
  have "sorted (map (\<lambda>p. - post_date p) ?ps)" by (rule sorted_sort_key)
  then have "sorted_wrt (\<lambda>a b. post_date b \<le> post_date a) ?ps"
    by (simp add: sorted_map)
  moreover have "mset ?ps = mset (posts s)" by simp
  moreover have "get_posts s = (Json 200 (BPosts ?ps), s)"
    using c by (simp add: get_posts_def Post_find_sort_def)
  ultimately show ?thesis by blast
qed

theorem get_posts_all_by_date_descending_witness:
  "connected demo_store
   \<and> get_posts demo_store = (Json 200 (BPosts [alice_post, bob_post]), demo_store)
   \<and> (\<exists>ps. get_posts demo_store = (Json 200 (BPosts ps), demo_store)
          \<and> mset ps = mset (posts demo_store)
          \<and> sorted_wrt (\<lambda>a b. post_date b \<le> post_date a) ps)"
proof -
  have c: "connected demo_store" by (simp add: demo_store_def)
  have g: "get_posts demo_store = (Json 200 (BPosts [alice_post, bob_post]), demo_store)"
    by (simp add: get_posts_def Post_find_sort_def demo_store_def alice_post_def bob_post_def)
  from get_posts_all_by_date_descending [OF c] c g show ?thesis by simp
qed

subsection \<open>The invariant of the likes\<close>


















end
